theory Spec2Isabelle
  imports Complex_Main "HOL-Library.Sublist"
begin

section \<open>Python built-ins used by the sources\<close>

text \<open>
  A text is the list of its characters, and a character is a code point below 256 (the
  8-bit \<open>char\<close>). On these, \<open>str.isspace\<close> holds of the codes 9 to 13, 28 to 32, 133 and
  160, and \<open>str.strip()\<close> removes such characters from both ends. \<open>str.lower\<close> maps
  the codes 65 to 90, 192 to 214 and 216 to 222 to the code 32 above and keeps every
  other character. \<open>str.upper\<close> maps the codes 97 to 122, 224 to 246 and 248 to 254 to
  the code 32 below; the capital of 181 is the code point 924, that of 255 is 376, and
  that of 223 is the two letters SS; so an upper-cased text is a list of code points.
\<close>

definition NL :: char where
  "NL = CHR 0x0A"

definition isspace :: "char \<Rightarrow> bool" where
  "isspace c =
     (let n = (of_char c :: nat)
      in (9 \<le> n \<and> n \<le> 13) \<or> (28 \<le> n \<and> n \<le> 32) \<or> n = 133 \<or> n = 160)"

text \<open>The code points of a text.\<close>

definition codes :: "string \<Rightarrow> nat list" where
  "codes s = map of_char s"

definition upper_codes :: "char \<Rightarrow> nat list" where
  "upper_codes c =
     (let n = (of_char c :: nat)
      in if 97 \<le> n \<and> n \<le> 122 then [n - 32]
         else if n = 181 then [924]
         else if n = 223 then [83, 83]
         else if (224 \<le> n \<and> n \<le> 246) \<or> (248 \<le> n \<and> n \<le> 254) then [n - 32]
         else if n = 255 then [376]
         else [n])"

definition lower_char :: "char \<Rightarrow> char" where
  "lower_char c =
     (let n = (of_char c :: nat)
      in if (65 \<le> n \<and> n \<le> 90) \<or> (192 \<le> n \<and> n \<le> 214) \<or> (216 \<le> n \<and> n \<le> 222)
         then char_of (n + 32) else c)"

definition py_upper :: "string \<Rightarrow> nat list" where
  "py_upper s = concat (map upper_codes s)"

definition py_lower :: "string \<Rightarrow> string" where
  "py_lower s = map lower_char s"

definition py_strip :: "string \<Rightarrow> string" where
  "py_strip s = rev (dropWhile isspace (rev (dropWhile isspace s)))"

text \<open>\<open>sub in s\<close> on texts: some position of \<open>s\<close> starts a copy of \<open>sub\<close>.\<close>

fun py_in :: "'a list \<Rightarrow> 'a list \<Rightarrow> bool" where
  "py_in sub [] = (sub = [])"
| "py_in sub (c # cs) = (take (length sub) (c # cs) = sub \<or> py_in sub cs)"

definition py_startswith :: "'a list \<Rightarrow> 'a list \<Rightarrow> bool" where
  "py_startswith s p = (take (length p) s = p)"

text \<open>
  \<open>s.split(sep)\<close> for a non-empty separator: the pieces between the non-overlapping
  occurrences of \<open>sep\<close>, found from the left. The empty separator raises \<open>ValueError\<close>.
\<close>

function split_from :: "string \<Rightarrow> string \<Rightarrow> string \<Rightarrow> string list" where
  "split_from sep acc [] = [rev acc]"
| "split_from sep acc (c # cs) =
     (if take (length sep) (c # cs) = sep
      then rev acc # split_from sep [] (drop (length sep - 1) cs)
      else split_from sep (c # acc) cs)"
  by pat_completeness auto
termination
  by (relation "measure (\<lambda>(sep, acc, s). length s)") (auto simp: less_Suc_eq_le)

definition py_split :: "string \<Rightarrow> string \<Rightarrow> string list option" where
  "py_split s sep = (if sep = [] then None else Some (split_from sep [] s))"

text \<open>\<open>xs[i]\<close> for a non-negative literal index: \<open>IndexError\<close> is \<open>None\<close>.\<close>

definition py_index :: "'a list \<Rightarrow> nat \<Rightarrow> 'a option" where
  "py_index xs i = (if i < length xs then Some (xs ! i) else None)"

text \<open>
  \<open>xs[i:]\<close>: a negative start counts from the end, and a start outside the list is
  clamped to it. So \<open>xs[-n:]\<close> reads \<open>py_slice_from xs (- n)\<close>, and \<open>-0\<close> is \<open>0\<close>.
\<close>

definition py_slice_from :: "'a list \<Rightarrow> int \<Rightarrow> 'a list" where
  "py_slice_from xs i =
     (let n = int (length xs);
          j = (if i < 0 then max (i + n) 0 else min i n)
      in drop (nat j) xs)"

text \<open>\<open>str(n)\<close> for a length \<open>n\<close>: its decimal digits.\<close>

definition digit_char :: "nat \<Rightarrow> char" where
  "digit_char d = char_of (48 + d)"

function str_nat :: "nat \<Rightarrow> string" where
  "str_nat n = (if n < 10 then [digit_char n] else str_nat (n div 10) @ [digit_char (n mod 10)])"
  by pat_completeness auto
termination
  by (relation "measure id") auto

declare str_nat.simps [simp del]

section \<open>Values that cross the component boundaries\<close>

text \<open>
  A pandas DataFrame as the code observes it: its column names and its rows.
  \<open>len(df)\<close> counts the rows, \<open>df.empty\<close> holds when either axis has length zero, and
  \<open>df.head(n)\<close> keeps the first \<open>n\<close> rows.
\<close>

datatype 'c dataframe = DataFrame (columns: "string list") (rows: "'c list list")

definition df_len :: "'c dataframe \<Rightarrow> nat" where
  "df_len df = length (rows df)"

definition df_empty :: "'c dataframe \<Rightarrow> bool" where
  "df_empty df = (rows df = [] \<or> columns df = [])"

definition df_head :: "nat \<Rightarrow> 'c dataframe \<Rightarrow> 'c dataframe" where
  "df_head n df = DataFrame (columns df) (take n (rows df))"

text \<open>
  A Python object passed as a query result: a string, a DataFrame, or any other object
  (the acknowledgement dictionary of the executor, an error text holder, ...).
\<close>

datatype ('c, 'o) pyval = PyStr string | PyDataFrame "'c dataframe" | PyOther 'o

definition isinstance_str :: "('c, 'o) pyval \<Rightarrow> bool" where
  "isinstance_str v = (case v of PyStr s \<Rightarrow> True | _ \<Rightarrow> False)"

text \<open>
  \<open>str(v)\<close>: a string is its own rendering; the rendering of any other object is
  the object's own \<open>__str__\<close>, a parameter \<open>str_obj\<close> of the model.
\<close>

definition py_str :: "(('c, 'o) pyval \<Rightarrow> string) \<Rightarrow> ('c, 'o) pyval \<Rightarrow> string" where
  "py_str str_obj v = (case v of PyStr s \<Rightarrow> s | _ \<Rightarrow> str_obj v)"

text \<open>The value \<open>json.loads\<close> returns.\<close>

datatype json =
    JNull
  | JBool bool
  | JInt int
  | JFloat real
  | JString string
  | JArray "json list"
  | JObject "(string \<times> json) list"

text \<open>
  The library functions the generator calls, as parameters. \<open>None\<close> is the exception
  the call raises: \<open>JSONDecodeError\<close> for \<open>json.loads\<close>, \<open>OverflowError\<close> and
  \<open>ValueError\<close> for \<open>float\<close> of an integer and of a string, \<open>ValidationError\<close> when
  pydantic is given a value that is not a string for a \<open>str\<close> field. A float is
  modelled by the real number it denotes.
\<close>

record pylib =
  json_loads :: "string \<Rightarrow> json option"
  float_of_int :: "int \<Rightarrow> real option"
  float_of_str :: "string \<Rightarrow> real option"
  str_of_nonstr :: "json \<Rightarrow> string option"

text \<open>\<open>float(v)\<close> on a parsed value; \<open>None\<close> is the \<open>TypeError\<close> or \<open>ValueError\<close>.\<close>

definition py_float :: "pylib \<Rightarrow> json \<Rightarrow> real option" where
  "py_float lib v =
     (case v of
        JNull \<Rightarrow> None
      | JBool b \<Rightarrow> Some (if b then 1 else 0)
      | JInt i \<Rightarrow> float_of_int lib i
      | JFloat r \<Rightarrow> Some r
      | JString s \<Rightarrow> float_of_str lib s
      | JArray xs \<Rightarrow> None
      | JObject kvs \<Rightarrow> None)"

text \<open>The validation of a \<open>str\<close> field of the pydantic model.\<close>

definition str_field :: "pylib \<Rightarrow> json \<Rightarrow> string option" where
  "str_field lib v = (case v of JString s \<Rightarrow> Some s | _ \<Rightarrow> str_of_nonstr lib v)"

text \<open>\<open>d.get(key, default)\<close> on the items of a dictionary.\<close>

definition dict_get :: "(string \<times> json) list \<Rightarrow> string \<Rightarrow> json \<Rightarrow> json" where
  "dict_get kvs key dflt = (case map_of kvs key of None \<Rightarrow> dflt | Some v \<Rightarrow> v)"

section \<open>rag/sql_generator.py\<close>

record SQLQuery =
  query :: string
  explanation :: string
  confidence :: real

definition create_fallback_query :: "string \<Rightarrow> string \<Rightarrow> SQLQuery" where
  "create_fallback_query question error =
     (let question_lower = py_lower question in
      if py_in ''class'' question_lower \<and> py_in ''all'' question_lower then
        \<lparr>query = ''SELECT class_id, class_name FROM classes LIMIT 100'',
         explanation = ''Showing all classes from the database'',
         confidence = 0.7\<rparr>
      else if py_in ''student'' question_lower \<and> py_in ''count'' question_lower then
        \<lparr>query = ''SELECT COUNT(*) as total_students FROM students'',
         explanation = ''Counting total number of students'',
         confidence = 0.7\<rparr>
      else if py_in ''student'' question_lower \<and> py_in ''all'' question_lower then
        \<lparr>query = ''SELECT roll_no, first_name, last_name, age FROM students LIMIT 100'',
         explanation = ''Showing all students in the database'',
         confidence = 0.7\<rparr>
      else
        \<lparr>query = ''SELECT '' @ [CHR 0x27] @ ''Error: Could not generate query'' @ [CHR 0x27]
                   @ '' as error_message'',
         explanation = ''Failed to generate query for: '' @ question @ ''. Error: '' @ error,
         confidence = 0.0\<rparr>)"

text \<open>
  \<open>re.sub(r'--.*$', '', query, flags=re.MULTILINE)\<close>: the scan copies characters until
  it meets \<open>--\<close>; there the greedy \<open>.*\<close> takes every character that is not a newline
  and \<open>$\<close> matches before the newline or at the end of the text, so the match is dropped
  and the scan goes on at the newline.
\<close>

function re_sub_line_comments :: "string \<Rightarrow> string" where
  "re_sub_line_comments [] = []"
| "re_sub_line_comments [c] = [c]"
| "re_sub_line_comments (c # d # cs) =
     (if c = CHR ''-'' \<and> d = CHR ''-''
      then re_sub_line_comments (dropWhile (\<lambda>x. x \<noteq> NL) cs)
      else c # re_sub_line_comments (d # cs))"
  by pat_completeness auto
termination
  by (relation "measure length") (auto simp: le_imp_less_Suc length_dropWhile_le less_SucI)

definition dangerous_keywords :: "string list" where
  "dangerous_keywords =
     [''DROP'', ''DELETE'', ''UPDATE'', ''INSERT'', ''ALTER'', ''CREATE'', ''TRUNCATE'']"

text \<open>The \<open>for keyword in dangerous_keywords\<close> loop: \<open>True\<close> when it returns early.\<close>

fun keyword_found :: "string list \<Rightarrow> nat list \<Rightarrow> bool" where
  "keyword_found [] clean_query = False"
| "keyword_found (keyword # rest) clean_query =
     (if py_in (codes keyword) clean_query then True else keyword_found rest clean_query)"

definition validate_sql :: "string \<Rightarrow> bool" where
  "validate_sql q =
     (let clean_query = re_sub_line_comments q;
          clean_query = py_upper (py_strip clean_query)
      in if keyword_found dangerous_keywords clean_query then False
         else if \<not> py_startswith clean_query (codes ''SELECT'') then False
         else True)"

text \<open>
  The body of the inner \<open>try\<close> of \<open>generate_sql\<close>: \<open>None\<close> when any statement of it
  raises, which the bare \<open>except\<close> catches.
\<close>

definition fence_json :: string where
  "fence_json = [CHR 0x60, CHR 0x60, CHR 0x60] @ ''json''"

definition fence :: string where
  "fence = [CHR 0x60, CHR 0x60, CHR 0x60]"

definition between_fences :: "string \<Rightarrow> string \<Rightarrow> string option" where
  "between_fences cleaned opening =
     (case py_split cleaned opening of
        None \<Rightarrow> None
      | Some parts \<Rightarrow>
          (case py_index parts 1 of
             None \<Rightarrow> None
           | Some inner \<Rightarrow>
               (case py_split inner fence of
                  None \<Rightarrow> None
                | Some pieces \<Rightarrow> py_index pieces 0)))"

definition clean_response :: "string \<Rightarrow> string option" where
  "clean_response result =
     (let cleaned_result = py_strip result in
      if py_in fence_json cleaned_result then between_fences cleaned_result fence_json
      else if py_in fence cleaned_result then between_fences cleaned_result fence
      else Some cleaned_result)"

definition build_query :: "pylib \<Rightarrow> json \<Rightarrow> SQLQuery option" where
  "build_query lib parsed =
     (case parsed of
        JObject kvs \<Rightarrow>
          (case str_field lib (dict_get kvs ''query'' (JString ''SELECT * FROM classes LIMIT 10'')) of
             None \<Rightarrow> None
           | Some q \<Rightarrow>
               (case str_field lib (dict_get kvs ''explanation'' (JString ''Generated SQL query'')) of
                  None \<Rightarrow> None
                | Some e \<Rightarrow>
                    (case py_float lib (dict_get kvs ''confidence'' (JFloat 0.8)) of
                       None \<Rightarrow> None
                     | Some c \<Rightarrow> Some \<lparr>query = q, explanation = e, confidence = c\<rparr>)))
      | _ \<Rightarrow> None)"

definition parse_response :: "pylib \<Rightarrow> string \<Rightarrow> SQLQuery option" where
  "parse_response lib result =
     (case clean_response result of
        None \<Rightarrow> None
      | Some cleaned_result \<Rightarrow>
          (case json_loads lib cleaned_result of
             None \<Rightarrow> None
           | Some parsed \<Rightarrow> build_query lib parsed))"

text \<open>
  \<open>generate_sql\<close>. The two calls on the schema analyzer come before the \<open>try\<close>: their
  outcome is an argument, and an exception of theirs (\<open>Inl\<close>) leaves the function.
  \<open>chain_run\<close> is the model invocation: \<open>Inl msg\<close> is an \<open>Exception\<close> whose \<open>str\<close> is
  \<open>msg\<close>, \<open>Inr text\<close> the text the model returned.
\<close>

definition generate_sql ::
  "pylib \<Rightarrow> string + string \<Rightarrow> string + string \<Rightarrow>
   (string \<Rightarrow> string \<Rightarrow> string \<Rightarrow> string + string) \<Rightarrow> string \<Rightarrow> string + SQLQuery" where
  "generate_sql lib get_schema_description get_table_info chain_run question =
     (case get_schema_description of
        Inl e \<Rightarrow> Inl e
      | Inr schema_description \<Rightarrow>
          (case get_table_info of
             Inl e \<Rightarrow> Inl e
           | Inr table_info \<Rightarrow>
               (case chain_run schema_description table_info question of
                  Inl e \<Rightarrow> Inr (create_fallback_query question e)
                | Inr result \<Rightarrow>
                    (case parse_response lib result of
                       None \<Rightarrow> Inr (create_fallback_query question [])
                     | Some q \<Rightarrow> Inr q))))"

section \<open>rag/memory_manager.py\<close>

record ('c, 'o) exchange =
  x_timestamp :: string
  x_question :: string
  x_sql_query :: string
  x_result :: "('c, 'o) pyval"
  x_explanation :: string

record ('c, 'o) ConversationMemory =
  conversations :: "string \<rightharpoonup> ('c, 'o) exchange list"
  current_session :: "string option"

definition init_memory :: "('c, 'o) ConversationMemory" where
  "init_memory = \<lparr>conversations = Map.empty, current_session = None\<rparr>"

text \<open>\<open>create_session\<close>: the fresh identifier \<open>uuid4\<close> draws is an argument.\<close>

definition create_session ::
  "string \<Rightarrow> ('c, 'o) ConversationMemory \<Rightarrow> string \<times> ('c, 'o) ConversationMemory" where
  "create_session session_id m =
     (session_id, m\<lparr>conversations := (conversations m)(session_id \<mapsto> []),
                    current_session := Some session_id\<rparr>)"

text \<open>\<open>add_exchange\<close>: the clock reading \<open>now\<close> is an argument.\<close>

definition add_exchange ::
  "(('c, 'o) pyval \<Rightarrow> string) \<Rightarrow> string \<Rightarrow> ('c, 'o) ConversationMemory \<Rightarrow> string \<Rightarrow> string \<Rightarrow>
   string \<Rightarrow> ('c, 'o) pyval \<Rightarrow> string \<Rightarrow> ('c, 'o) ConversationMemory" where
  "add_exchange str_obj now m session_id question sql_query result explanation' =
     (let convs = (case conversations m session_id of
                     None \<Rightarrow> (conversations m)(session_id \<mapsto> [])
                   | Some entries \<Rightarrow> conversations m);
          exchange = \<lparr>x_timestamp = now,
                      x_question = question,
                      x_sql_query = sql_query,
                      x_result = (if \<not> isinstance_str result then PyStr (py_str str_obj result)
                                  else result),
                      x_explanation = explanation'\<rparr>
      in m\<lparr>conversations := convs(session_id \<mapsto> the (convs session_id) @ [exchange])\<rparr>)"

definition get_conversation_history ::
  "('c, 'o) ConversationMemory \<Rightarrow> string \<Rightarrow> int \<Rightarrow> ('c, 'o) exchange list" where
  "get_conversation_history m session_id limit =
     (case conversations m session_id of
        None \<Rightarrow> []
      | Some entries \<Rightarrow> py_slice_from entries (- limit))"

definition get_context_for_question ::
  "('c, 'o) ConversationMemory \<Rightarrow> string \<Rightarrow> string \<Rightarrow> string" where
  "get_context_for_question m session_id current_question =
     (let history = get_conversation_history m session_id 5 in
      if history = [] then []
      else foldl (\<lambda>context exchange.
                    context @ ''Q: '' @ x_question exchange @ [NL]
                            @ ''A: '' @ x_explanation exchange @ [NL, NL])
                 (''Previous conversation context:'' @ [NL])
                 (py_slice_from history (- 3)))"

section \<open>rag/response_generator.py\<close>

text \<open>
  The formatting of the results at the head of \<open>generate_response\<close>.
  \<open>to_string\<close> is \<open>DataFrame.to_string(index=False)\<close>, a parameter.
\<close>

definition format_results ::
  "('c dataframe \<Rightarrow> string) \<Rightarrow> (('c, 'o) pyval \<Rightarrow> string) \<Rightarrow> ('c, 'o) pyval \<Rightarrow> string" where
  "format_results to_string str_obj results =
     (case results of
        PyDataFrame df \<Rightarrow>
          (if df_empty df then ''No data found.''
           else if df_len df > 10 then
             ''Found '' @ str_nat (df_len df) @ '' records. Here are the first 10:'' @ [NL]
               @ to_string (df_head 10 df)
           else to_string df)
      | _ \<Rightarrow> py_str str_obj results)"

text \<open>
  \<open>generate_response\<close>: \<open>prompt_format\<close> fills the template, \<open>llm_invoke\<close> is the model
  call (\<open>Inl\<close> an \<open>Exception\<close>, \<open>Inr\<close> the content of the response).
\<close>

definition generate_response ::
  "('c dataframe \<Rightarrow> string) \<Rightarrow> (('c, 'o) pyval \<Rightarrow> string) \<Rightarrow>
   (string \<Rightarrow> string \<Rightarrow> string \<Rightarrow> string \<Rightarrow> string) \<Rightarrow> (string \<Rightarrow> string + string) \<Rightarrow>
   string \<Rightarrow> string \<Rightarrow> ('c, 'o) pyval \<Rightarrow> string \<Rightarrow> string" where
  "generate_response to_string str_obj prompt_format llm_invoke question sql_query results context =
     (let results_text = format_results to_string str_obj results in
      case llm_invoke (prompt_format question sql_query results_text context) of
        Inr content \<Rightarrow> content
      | Inl e \<Rightarrow> ''I found some results for your question '' @ [CHR 0x27] @ question @ [CHR 0x27]
                 @ ''. Here'' @ [CHR 0x27] @ ''s what I discovered: '' @ results_text)"

section \<open>The validator's specification\<close>

text \<open>
  The specification's reading of the validator, stated on lines: the text is cut into
  its lines, each line loses everything from its first \<open>--\<close> on, and the lines are put
  together again; the result is trimmed and upper-cased. Trimming is stated on its
  own: the white space characters are listed, the text loses them from its left end
  character by character, and from its right end every character after which only
  white space follows.
\<close>

fun split_lines :: "string \<Rightarrow> string list" where
  "split_lines [] = [[]]"
| "split_lines (c # cs) =
     (if c = NL then [] # split_lines cs
      else (case split_lines cs of [] \<Rightarrow> [[c]] | l # ls \<Rightarrow> (c # l) # ls))"

fun join_lines :: "string list \<Rightarrow> string" where
  "join_lines [] = []"
| "join_lines [l] = l"
| "join_lines (l # m # ls) = l @ NL # join_lines (m # ls)"

fun before_comment :: "string \<Rightarrow> string" where
  "before_comment [] = []"
| "before_comment [c] = [c]"
| "before_comment (c # d # cs) =
     (if c = CHR ''-'' \<and> d = CHR ''-'' then [] else c # before_comment (d # cs))"

definition without_line_comments :: "string \<Rightarrow> string" where
  "without_line_comments q = join_lines (map before_comment (split_lines q))"

definition white_chars :: string where
  "white_chars =
     [CHR 0x09, CHR 0x0A, CHR 0x0B, CHR 0x0C, CHR 0x0D, CHR 0x1C, CHR 0x1D, CHR 0x1E, CHR 0x1F,
      CHR 0x20, CHR 0x85, CHR 0xA0]"

definition white :: "char \<Rightarrow> bool" where
  "white c = (c \<in> set white_chars)"

fun trim_left :: "string \<Rightarrow> string" where
  "trim_left [] = []"
| "trim_left (c # cs) = (if white c then trim_left cs else c # cs)"

fun trim_right :: "string \<Rightarrow> string" where
  "trim_right [] = []"
| "trim_right (c # cs) =
     (let kept = trim_right cs in if kept = [] \<and> white c then [] else c # kept)"

definition trimmed :: "string \<Rightarrow> string" where
  "trimmed s = trim_right (trim_left s)"

definition cleaned_text :: "string \<Rightarrow> nat list" where
  "cleaned_text q = py_upper (trimmed (without_line_comments q))"

section \<open>Recency and sequences of memory operations\<close>

text \<open>
  The specification's "most recent \<open>n\<close>, oldest first": the last \<open>n\<close> elements of a log,
  in the order of the log.
\<close>

definition most_recent :: "nat \<Rightarrow> 'a list \<Rightarrow> 'a list" where
  "most_recent n xs = rev (take n (rev xs))"

text \<open>
  The operations that change a \<open>ConversationMemory\<close>, and the memory a sequence of them
  leaves when run from the empty memory of \<open>__init__\<close>.
\<close>

datatype ('c, 'o) memory_op =
    CreateSession string
  | AddExchange string string string string "('c, 'o) pyval" string

fun apply_op ::
  "(('c, 'o) pyval \<Rightarrow> string) \<Rightarrow> ('c, 'o) ConversationMemory \<Rightarrow> ('c, 'o) memory_op \<Rightarrow>
   ('c, 'o) ConversationMemory" where
  "apply_op str_obj m (CreateSession session_id) = snd (create_session session_id m)"
| "apply_op str_obj m (AddExchange now session_id question sql_query result explanation') =
     add_exchange str_obj now m session_id question sql_query result explanation'"

definition run_ops ::
  "(('c, 'o) pyval \<Rightarrow> string) \<Rightarrow> ('c, 'o) memory_op list \<Rightarrow> ('c, 'o) ConversationMemory" where
  "run_ops str_obj ops = foldl (apply_op str_obj) init_memory ops"

text \<open>
  Every stored result is a string.
\<close>

definition strings_only :: "('c, 'o) ConversationMemory \<Rightarrow> bool" where
  "strings_only m =
     (\<forall>sid entries. conversations m sid = Some entries \<longrightarrow>
        (\<forall>e \<in> set entries. isinstance_str (x_result e)))"

text \<open>
  The number that a string of decimal digits denotes.
\<close>

definition digits_value :: "string \<Rightarrow> nat" where
  "digits_value s = foldl (\<lambda>acc c. 10 * acc + (of_char c - 48)) 0 s"

section \<open>Example environments\<close>

text \<open>
  Concrete library behaviours, model outputs, logs and frames on which the theorems are
  exercised: a \<open>json.loads\<close> that returns a given value, a model call that returns a
  given text, a session of four exchanges, and frames of one column.
\<close>

definition example_lib :: "json option \<Rightarrow> pylib" where
  "example_lib parsed =
     \<lparr>json_loads = (\<lambda>s. parsed),
      float_of_int = (\<lambda>i. Some (of_int i)),
      float_of_str = (\<lambda>s. None),
      str_of_nonstr = (\<lambda>v. None)\<rparr>"

definition example_chain :: "string \<Rightarrow> string \<Rightarrow> string \<Rightarrow> string \<Rightarrow> string + string" where
  "example_chain text schema_description table_info question = Inr text"

definition example_ops :: "('c, 'o) memory_op list" where
  "example_ops =
     [CreateSession ''s1'',
        AddExchange ''t1'' ''s1'' ''q1'' ''SELECT 1'' (PyStr ''r1'') ''e1'',
        AddExchange ''t2'' ''s1'' ''q2'' ''SELECT 2'' (PyStr ''r2'') ''e2'',
        AddExchange ''t3'' ''s1'' ''q3'' ''SELECT 3'' (PyStr ''r3'') ''e3'',
        AddExchange ''t4'' ''s1'' ''q4'' ''SELECT 4'' (PyStr ''r4'') ''e4'']"

definition example_log :: "('c, 'o) exchange list" where
  "example_log =
     [\<lparr>x_timestamp = ''t1'', x_question = ''q1'', x_sql_query = ''SELECT 1'', x_result = PyStr ''r1'', x_explanation = ''e1''\<rparr>,
           \<lparr>x_timestamp = ''t2'', x_question = ''q2'', x_sql_query = ''SELECT 2'', x_result = PyStr ''r2'', x_explanation = ''e2''\<rparr>,
           \<lparr>x_timestamp = ''t3'', x_question = ''q3'', x_sql_query = ''SELECT 3'', x_result = PyStr ''r3'', x_explanation = ''e3''\<rparr>,
           \<lparr>x_timestamp = ''t4'', x_question = ''q4'', x_sql_query = ''SELECT 4'', x_result = PyStr ''r4'', x_explanation = ''e4''\<rparr>]"

definition example_store :: "(nat, nat) memory_op list" where
  "example_store =
     [AddExchange ''t1'' ''s1'' ''q1'' ''SELECT 1'' (PyDataFrame (DataFrame [''n''] [[1]])) ''e1'']"

definition example_to_string :: "nat dataframe \<Rightarrow> string" where
  "example_to_string df = concat (map (\<lambda>row. concat (map str_nat row) @ '';'') (rows df))"

definition example_frame :: "nat \<Rightarrow> nat dataframe" where
  "example_frame n = DataFrame [''n''] (map (\<lambda>i. [i]) [0..<n])"

section \<open>Facts about the string functions\<close>

lemma split_lines_nonempty: "split_lines s \<noteq> []"
  by (induction s) (auto split: list.splits)

lemma join_lines_Cons: "ls \<noteq> [] \<Longrightarrow> join_lines (l # ls) = l @ NL # join_lines ls"
  by (cases ls) auto

lemma split_lines_comment:
  "join_lines (map before_comment (split_lines (CHR ''-'' # CHR ''-'' # cs)))
   = join_lines (map before_comment (split_lines (dropWhile (\<lambda>x. x \<noteq> NL) cs)))"
proof (induction cs)
  case Nil
  show ?case by (simp add: NL_def)
next
  case (Cons a cs)
  show ?case
  proof (cases "a = NL")
    case True
    then show ?thesis by (simp add: NL_def)
  next
    case False
    obtain l ls where sl: "split_lines cs = l # ls"
      using split_lines_nonempty by (cases "split_lines cs") auto
    from False Cons sl show ?thesis by (simp add: NL_def)
  qed
qed

lemma re_sub_keep: "c \<noteq> CHR ''-'' \<Longrightarrow> re_sub_line_comments (c # s) = c # re_sub_line_comments s"
  by (cases s) auto

lemma before_comment_keep:
  "\<not> (c = CHR ''-'' \<and> (l \<noteq> [] \<and> hd l = CHR ''-'')) \<Longrightarrow> before_comment (c # l) = c # before_comment l"
  by (cases l) auto

lemma hd_split_lines: "d \<noteq> NL \<Longrightarrow> split_lines (d # cs) = l # ls \<Longrightarrow> l \<noteq> [] \<and> hd l = d"
  by (auto split: list.splits)

lemma without_keep:
  assumes "\<not> (c = CHR ''-'' \<and> s \<noteq> [] \<and> hd s = CHR ''-'')"
  shows "without_line_comments (c # s) = c # without_line_comments s"
proof (cases "c = NL")
  case True
  then show ?thesis
    by (simp add: without_line_comments_def join_lines_Cons split_lines_nonempty)
next
  case False
  obtain l ls where sl: "split_lines s = l # ls"
    using split_lines_nonempty by (cases "split_lines s") auto
  have "\<not> (c = CHR ''-'' \<and> l \<noteq> [] \<and> hd l = CHR ''-'')"
  proof (cases s)
    case Nil
    with sl show ?thesis by simp
  next
    case (Cons d cs)
    show ?thesis
    proof (cases "d = NL")
      case True
      with Cons sl show ?thesis by simp
    next
      case False
      with hd_split_lines[of d cs l ls] Cons sl assms show ?thesis by auto
    qed
  qed
  then have "before_comment (c # l) = c # before_comment l"
    by (rule before_comment_keep)
  with False sl show ?thesis
    by (cases ls) (simp_all add: without_line_comments_def)
qed

lemma re_sub_is_without: "re_sub_line_comments q = without_line_comments q"
proof (induction q rule: re_sub_line_comments.induct)
  case 1
  show ?case by (simp add: without_line_comments_def)
next
  case (2 c)
  show ?case by (simp add: without_line_comments_def)
next
  case (3 c d cs)
  show ?case
  proof (cases "c = CHR ''-'' \<and> d = CHR ''-''")
    case True
    with 3 show ?thesis
      using split_lines_comment[of cs] by (simp add: without_line_comments_def)
  next
    case False
    from False have a: "re_sub_line_comments (c # d # cs) = c # re_sub_line_comments (d # cs)"
      by auto
    from 3(2) False have b: "re_sub_line_comments (d # cs) = without_line_comments (d # cs)"
      by blast
    from False have c: "without_line_comments (c # d # cs) = c # without_line_comments (d # cs)"
      using without_keep[of c "d # cs"] by auto
    show ?thesis by (simp only: a b c)
  qed
qed

lemma py_in_sublist: "py_in sub s \<longleftrightarrow> sublist sub s"
proof (induction s)
  case Nil
  show ?case by auto
next
  case (Cons c cs)
  have "take (length sub) (c # cs) = sub \<longleftrightarrow> prefix sub (c # cs)"
    by (metis prefix_def append_eq_conv_conj)
  with Cons show ?case by (simp add: sublist_Cons_right)
qed

lemma py_startswith_prefix: "py_startswith s p \<longleftrightarrow> prefix p s"
  unfolding py_startswith_def by (metis prefix_def append_eq_conv_conj)

lemma keyword_found_iff: "keyword_found ks c \<longleftrightarrow> (\<exists>k \<in> set ks. sublist (codes k) c)"
  by (induction ks) (auto simp: py_in_sublist)

lemma white_isspace: "white c \<longleftrightarrow> isspace c"
proof -
  have "white c \<longleftrightarrow> (of_char c :: nat) \<in> of_char ` set white_chars"
    unfolding white_def by (simp only: inj_image_mem_iff [OF inj_of_char])
  also have "of_char ` set white_chars = {9, 10, 11, 12, 13, 28, 29, 30, 31, 32, 133, 160 :: nat}"
    by (simp add: white_chars_def)
  also have "(of_char c :: nat) \<in> {9, 10, 11, 12, 13, 28, 29, 30, 31, 32, 133, 160} \<longleftrightarrow> isspace c"
    unfolding isspace_def Let_def by (simp only: insert_iff empty_iff) presburger
  finally show ?thesis .
qed

lemma trim_left_dropWhile: "trim_left s = dropWhile isspace s"
  by (induction s) (simp_all add: white_isspace)

lemma trim_right_rev: "trim_right s = rev (dropWhile isspace (rev s))"
proof (induction s)
  case Nil
  show ?case by simp
next
  case (Cons c cs)
  show ?case
  proof (cases "\<forall>x \<in> set cs. isspace x")
    case True
    with Cons have "trim_right cs = []" by simp
    with True show ?thesis by (simp add: white_isspace dropWhile_append)
  next
    case False
    with Cons have "trim_right cs \<noteq> []" by simp
    moreover from False have "dropWhile isspace (rev cs @ [c]) = dropWhile isspace (rev cs) @ [c]"
      by (auto simp: dropWhile_append)
    ultimately show ?thesis using Cons by (simp add: Let_def)
  qed
qed

lemma trimmed_strip: "trimmed s = py_strip s"
  by (simp add: trimmed_def py_strip_def trim_left_dropWhile trim_right_rev)

lemma strip_decomposition:
  "\<exists>pre suf. s = pre @ py_strip s @ suf \<and> (\<forall>c \<in> set pre. isspace c) \<and> (\<forall>c \<in> set suf. isspace c)"
proof -
  let ?x = "dropWhile isspace s"
  let ?suf = "rev (takeWhile isspace (rev ?x))"
  have "rev (py_strip s @ ?suf) = rev ?x"
    by (simp add: py_strip_def)
  then have x: "?x = py_strip s @ ?suf"
    by (simp only: rev_is_rev_conv)
  have "s = takeWhile isspace s @ ?x"
    by simp
  with x have "s = takeWhile isspace s @ py_strip s @ ?suf"
    by simp
  moreover have "\<forall>c \<in> set (takeWhile isspace s). isspace c"
    by (auto dest: set_takeWhileD)
  moreover have "\<forall>c \<in> set ?suf. isspace c"
    by (auto dest: set_takeWhileD)
  ultimately show ?thesis by blast
qed

lemma upper_codes_space:
  "isspace c \<Longrightarrow> n \<in> set (upper_codes c) \<Longrightarrow> \<not> (65 \<le> n \<and> n \<le> 90)"
  by (auto simp: isspace_def upper_codes_def Let_def split: if_splits)

lemma py_upper_append: "py_upper (a @ b) = py_upper a @ py_upper b"
  by (simp add: py_upper_def)

lemma py_upper_spaces:
  "\<forall>c \<in> set s. isspace c \<Longrightarrow> n \<in> set (py_upper s) \<Longrightarrow> \<not> (65 \<le> n \<and> n \<le> 90)"
  unfolding py_upper_def using upper_codes_space by auto

lemma sublist_drop_prefix:
  assumes "k \<noteq> []" and "hd k \<notin> set a" and "sublist k (a @ b)"
  shows "sublist k b"
  using assms(2,3)
proof (induction a)
  case Nil
  then show ?case by simp
next
  case (Cons x a)
  from Cons.prems(2) have "prefix k (x # a @ b) \<or> sublist k (a @ b)"
    by (simp add: sublist_Cons_right)
  moreover have "\<not> prefix k (x # a @ b)"
    using assms(1) Cons.prems(1) by (cases k) auto
  ultimately show ?case using Cons by simp
qed

lemma sublist_drop_suffix:
  assumes "k \<noteq> []" and "last k \<notin> set c" and "sublist k (b @ c)"
  shows "sublist k b"
proof -
  from assms(3) have "sublist (rev k) (rev (b @ c))"
    by (simp only: sublist_rev)
  then have "sublist (rev k) (rev c @ rev b)"
    by simp
  moreover from assms(1,2) have "rev k \<noteq> []" and "hd (rev k) \<notin> set (rev c)"
    by (simp_all add: hd_rev)
  ultimately have "sublist (rev k) (rev b)"
    using sublist_drop_prefix by blast
  then show ?thesis by simp
qed

lemma validate_sql_cleaned:
  "validate_sql q \<longleftrightarrow>
     (\<forall>k \<in> set dangerous_keywords. \<not> sublist (codes k) (cleaned_text q)) \<and>
     prefix (codes ''SELECT'') (cleaned_text q)"
  by (auto simp: validate_sql_def cleaned_text_def Let_def keyword_found_iff py_startswith_prefix
        re_sub_is_without trimmed_strip)

lemma keyword_edges:
  "k \<in> set dangerous_keywords \<Longrightarrow>
     codes k \<noteq> [] \<and> 65 \<le> hd (codes k) \<and> hd (codes k) \<le> 90 \<and>
     65 \<le> last (codes k) \<and> last (codes k) \<le> 90"
  by (auto simp: dangerous_keywords_def codes_def)

lemma keyword_outside_comments:
  assumes "k \<in> set dangerous_keywords" and "sublist (codes k) (py_upper r)"
  shows "sublist (codes k) (py_upper (trimmed r))"
proof -
  obtain pre suf where r: "r = pre @ py_strip r @ suf"
    and pre: "\<forall>c \<in> set pre. isspace c" and suf: "\<forall>c \<in> set suf. isspace c"
    using strip_decomposition by blast
  have "py_upper r = py_upper (pre @ py_strip r @ suf)"
    using r by simp
  then have u: "py_upper r = py_upper pre @ py_upper (py_strip r) @ py_upper suf"
    by (simp only: py_upper_append)
  from keyword_edges [OF assms(1)] have ne: "codes k \<noteq> []"
    and h: "65 \<le> hd (codes k) \<and> hd (codes k) \<le> 90"
    and l: "65 \<le> last (codes k) \<and> last (codes k) \<le> 90"
    by simp_all
  from h pre have "hd (codes k) \<notin> set (py_upper pre)"
    using py_upper_spaces by blast
  moreover from assms(2) u
  have "sublist (codes k) (py_upper pre @ py_upper (py_strip r) @ py_upper suf)"
    by simp
  ultimately have "sublist (codes k) (py_upper (py_strip r) @ py_upper suf)"
    using ne sublist_drop_prefix by blast
  moreover from l suf have "last (codes k) \<notin> set (py_upper suf)"
    using py_upper_spaces by blast
  ultimately have "sublist (codes k) (py_upper (py_strip r))"
    using ne sublist_drop_suffix by blast
  then show ?thesis by (simp add: trimmed_strip)
qed

section \<open>The validator\<close>

text \<open>
  C1. \<open>validate_sql q\<close> is true exactly when the text left after removing the line
  comments, trimming and upper-casing contains none of DROP, DELETE, UPDATE, INSERT,
  ALTER, CREATE, TRUNCATE and begins with SELECT. In particular it is false when one of
  these keywords occurs, in any case, outside the line comments of \<open>q\<close>, and false when
  the trimmed text does not begin with SELECT.
\<close>

theorem validate_sql_spec:
  "(validate_sql q \<longleftrightarrow>
      (\<forall>k \<in> {''DROP'', ''DELETE'', ''UPDATE'', ''INSERT'', ''ALTER'', ''CREATE'', ''TRUNCATE''}.
          \<not> sublist (codes k) (cleaned_text q))
      \<and> prefix (codes ''SELECT'') (cleaned_text q))
   \<and> ((\<exists>k \<in> {''DROP'', ''DELETE'', ''UPDATE'', ''INSERT'', ''ALTER'', ''CREATE'', ''TRUNCATE''}.
          sublist (codes k) (py_upper (without_line_comments q))) \<longrightarrow> \<not> validate_sql q)
   \<and> (\<not> prefix (codes ''SELECT'') (cleaned_text q) \<longrightarrow> \<not> validate_sql q)"
proof -
  have ks: "{''DROP'', ''DELETE'', ''UPDATE'', ''INSERT'', ''ALTER'', ''CREATE'', ''TRUNCATE''}
            = set dangerous_keywords"
    by (simp add: dangerous_keywords_def)
  have main: "validate_sql q \<longleftrightarrow>
      (\<forall>k \<in> set dangerous_keywords. \<not> sublist (codes k) (cleaned_text q)) \<and>
      prefix (codes ''SELECT'') (cleaned_text q)"
    by (rule validate_sql_cleaned)
  have kw: "(\<exists>k \<in> set dangerous_keywords. sublist (codes k) (py_upper (without_line_comments q)))
            \<longrightarrow> \<not> validate_sql q"
    using keyword_outside_comments main unfolding cleaned_text_def by blast
  from main kw show ?thesis unfolding ks by blast
qed

theorem validate_sql_spec_witness:
  "validate_sql ([CHR 0xA0, CHR 0x09] @ ''select 1 -- drop it'' @ [NL, CHR 0x85] @ ''  '')
   \<and> \<not> validate_sql ''SELECT 1; drop table t''
   \<and> \<not> validate_sql ''  show tables''
   \<and> \<not> validate_sql (''  SELECT name -- all'' @ [NL] @ ''  FROM t; Truncate t  '')"
proof -
  have a: "cleaned_text ([CHR 0xA0, CHR 0x09] @ ''select 1 -- drop it'' @ [NL, CHR 0x85] @ ''  '') = codes ''SELECT 1''"
    by code_simp
  have "\<forall>k \<in> {''DROP'', ''DELETE'', ''UPDATE'', ''INSERT'', ''ALTER'', ''CREATE'', ''TRUNCATE''}.
          \<not> sublist (codes k) (codes ''SELECT 1'')"
    by code_simp
  moreover have "prefix (codes ''SELECT'') (codes ''SELECT 1'')"
    by code_simp
  ultimately have 1: "validate_sql ([CHR 0xA0, CHR 0x09] @ ''select 1 -- drop it'' @ [NL, CHR 0x85] @ ''  '')"
    using validate_sql_spec [of "[CHR 0xA0, CHR 0x09] @ ''select 1 -- drop it'' @ [NL, CHR 0x85] @ ''  ''"] unfolding a by blast
  have "sublist (codes ''DROP'') (py_upper (without_line_comments ''SELECT 1; drop table t''))"
    by code_simp
  then have 2: "\<not> validate_sql ''SELECT 1; drop table t''"
    using validate_sql_spec [of "''SELECT 1; drop table t''"] by blast
  have "\<not> prefix (codes ''SELECT'') (cleaned_text ''  show tables'')"
    by code_simp
  then have 3: "\<not> validate_sql ''  show tables''"
    using validate_sql_spec [of "''  show tables''"] by blast
  have t: "sublist (codes ''TRUNCATE'')
          (cleaned_text (''  SELECT name -- all'' @ [NL] @ ''  FROM t; Truncate t  ''))"
    by code_simp
  have m: "''TRUNCATE'' \<in> {''DROP'', ''DELETE'', ''UPDATE'', ''INSERT'', ''ALTER'', ''CREATE'', ''TRUNCATE''}"
    by simp
  have 4: "\<not> validate_sql (''  SELECT name -- all'' @ [NL] @ ''  FROM t; Truncate t  '')"
  proof
    assume v: "validate_sql (''  SELECT name -- all'' @ [NL] @ ''  FROM t; Truncate t  '')"
    have "(\<forall>k \<in> {''DROP'', ''DELETE'', ''UPDATE'', ''INSERT'', ''ALTER'', ''CREATE'', ''TRUNCATE''}.
            \<not> sublist (codes k)
                (cleaned_text (''  SELECT name -- all'' @ [NL] @ ''  FROM t; Truncate t  '')))
          \<and> prefix (codes ''SELECT'')
                (cleaned_text (''  SELECT name -- all'' @ [NL] @ ''  FROM t; Truncate t  ''))"
      by (rule iffD1 [OF conjunct1 [OF validate_sql_spec] v])
    then have "\<forall>k \<in> {''DROP'', ''DELETE'', ''UPDATE'', ''INSERT'', ''ALTER'', ''CREATE'', ''TRUNCATE''}.
            \<not> sublist (codes k)
                (cleaned_text (''  SELECT name -- all'' @ [NL] @ ''  FROM t; Truncate t  ''))"
      by (rule conjunct1)
    from bspec [OF this m] t show False
      by (rule notE)
  qed
  from 1 2 3 4 show ?thesis by blast
qed

section \<open>The fallback ladder\<close>

lemma fallback_ladder:
  "create_fallback_query question error =
     (if sublist ''class'' (py_lower question) \<and> sublist ''all'' (py_lower question) then
        \<lparr>query = ''SELECT class_id, class_name FROM classes LIMIT 100'',
         explanation = ''Showing all classes from the database'',
         confidence = 0.7\<rparr>
      else if sublist ''student'' (py_lower question) \<and> sublist ''count'' (py_lower question) then
        \<lparr>query = ''SELECT COUNT(*) as total_students FROM students'',
         explanation = ''Counting total number of students'',
         confidence = 0.7\<rparr>
      else if sublist ''student'' (py_lower question) \<and> sublist ''all'' (py_lower question) then
        \<lparr>query = ''SELECT roll_no, first_name, last_name, age FROM students LIMIT 100'',
         explanation = ''Showing all students in the database'',
         confidence = 0.7\<rparr>
      else
        \<lparr>query = ''SELECT '' @ [CHR 0x27] @ ''Error: Could not generate query'' @ [CHR 0x27]
                   @ '' as error_message'',
         explanation = ''Failed to generate query for: '' @ question @ ''. Error: '' @ error,
         confidence = 0\<rparr>)"
  by (simp add: create_fallback_query_def Let_def py_in_sublist)

text \<open>
  C2. The rules of \<open>create_fallback_query\<close> are tried in order on the lower-cased
  question and the first match wins: "class" and "all" give the list-all-classes query
  with confidence 0.7, whatever else the question contains; otherwise "student" and
  "count" give the count-students query (0.7); otherwise "student" and "all" give the
  list-all-students query (0.7); otherwise the query selects a literal error string as
  its only column, the confidence is 0.0 and the explanation embeds the error text.
\<close>

theorem create_fallback_query_order:
  "(sublist ''class'' (py_lower question) \<and> sublist ''all'' (py_lower question) \<longrightarrow>
      create_fallback_query question error =
        \<lparr>query = ''SELECT class_id, class_name FROM classes LIMIT 100'',
          explanation = ''Showing all classes from the database'',
          confidence = 0.7\<rparr>)
   \<and> (\<not> (sublist ''class'' (py_lower question) \<and> sublist ''all'' (py_lower question)) \<and>
      sublist ''student'' (py_lower question) \<and> sublist ''count'' (py_lower question) \<longrightarrow>
      create_fallback_query question error =
        \<lparr>query = ''SELECT COUNT(*) as total_students FROM students'',
          explanation = ''Counting total number of students'',
          confidence = 0.7\<rparr>)
   \<and> (\<not> (sublist ''class'' (py_lower question) \<and> sublist ''all'' (py_lower question)) \<and>
      \<not> (sublist ''student'' (py_lower question) \<and> sublist ''count'' (py_lower question)) \<and>
      sublist ''student'' (py_lower question) \<and> sublist ''all'' (py_lower question) \<longrightarrow>
      create_fallback_query question error =
        \<lparr>query = ''SELECT roll_no, first_name, last_name, age FROM students LIMIT 100'',
          explanation = ''Showing all students in the database'',
          confidence = 0.7\<rparr>)
   \<and> (\<not> (sublist ''class'' (py_lower question) \<and> sublist ''all'' (py_lower question)) \<and>
      \<not> (sublist ''student'' (py_lower question) \<and> sublist ''count'' (py_lower question)) \<and>
      \<not> (sublist ''student'' (py_lower question) \<and> sublist ''all'' (py_lower question)) \<longrightarrow>
      query (create_fallback_query question error) =
        ''SELECT '' @ [CHR 0x27] @ ''Error: Could not generate query'' @ [CHR 0x27] @ '' as error_message'' \<and>
      confidence (create_fallback_query question error) = 0.0 \<and>
      explanation (create_fallback_query question error) =
        ''Failed to generate query for: '' @ question @ ''. Error: '' @ error \<and>
      sublist error (explanation (create_fallback_query question error)))"
proof -
  have "sublist error (''Failed to generate query for: '' @ question @ ''. Error: '' @ error)"
    unfolding sublist_def
    by (rule exI [of _ "''Failed to generate query for: '' @ question @ ''. Error: ''"])
       (rule exI [of _ "[]"], simp)
  then show ?thesis
    by (simp add: fallback_ladder)
qed

theorem create_fallback_query_order_witness:
  "create_fallback_query ''Count ALL students in each Class'' ''boom'' =
        \<lparr>query = ''SELECT class_id, class_name FROM classes LIMIT 100'',
          explanation = ''Showing all classes from the database'',
          confidence = 0.7\<rparr>
   \<and> create_fallback_query ''count the students'' ''boom'' =
        \<lparr>query = ''SELECT COUNT(*) as total_students FROM students'',
          explanation = ''Counting total number of students'',
          confidence = 0.7\<rparr>
   \<and> create_fallback_query ''Show all students'' ''boom'' =
        \<lparr>query = ''SELECT roll_no, first_name, last_name, age FROM students LIMIT 100'',
          explanation = ''Showing all students in the database'',
          confidence = 0.7\<rparr>
   \<and> query (create_fallback_query ''hello'' ''boom'') =
        ''SELECT '' @ [CHR 0x27] @ ''Error: Could not generate query'' @ [CHR 0x27] @ '' as error_message''
   \<and> confidence (create_fallback_query ''hello'' ''boom'') = 0.0
   \<and> explanation (create_fallback_query ''hello'' ''boom'') =
        ''Failed to generate query for: hello. Error: boom''"
proof -
  have a: "sublist ''class'' (py_lower ''Count ALL students in each Class'')
           \<and> sublist ''all'' (py_lower ''Count ALL students in each Class'')"
    by code_simp
  have b: "\<not> (sublist ''class'' (py_lower ''count the students'') \<and>
               sublist ''all'' (py_lower ''count the students''))
           \<and> sublist ''student'' (py_lower ''count the students'')
           \<and> sublist ''count'' (py_lower ''count the students'')"
    by code_simp
  have c: "\<not> (sublist ''class'' (py_lower ''Show all students'') \<and>
               sublist ''all'' (py_lower ''Show all students''))
           \<and> \<not> (sublist ''student'' (py_lower ''Show all students'') \<and>
               sublist ''count'' (py_lower ''Show all students''))
           \<and> sublist ''student'' (py_lower ''Show all students'')
           \<and> sublist ''all'' (py_lower ''Show all students'')"
    by code_simp
  have d: "\<not> (sublist ''class'' (py_lower ''hello'') \<and> sublist ''all'' (py_lower ''hello''))
           \<and> \<not> (sublist ''student'' (py_lower ''hello'') \<and> sublist ''count'' (py_lower ''hello''))
           \<and> \<not> (sublist ''student'' (py_lower ''hello'') \<and> sublist ''all'' (py_lower ''hello''))"
    by code_simp
  from a have 1: "create_fallback_query ''Count ALL students in each Class'' ''boom'' =
        \<lparr>query = ''SELECT class_id, class_name FROM classes LIMIT 100'',
          explanation = ''Showing all classes from the database'',
          confidence = 0.7\<rparr>"
    using create_fallback_query_order [of "''Count ALL students in each Class''" "''boom''"]
    by blast
  from b have 2: "create_fallback_query ''count the students'' ''boom'' =
        \<lparr>query = ''SELECT COUNT(*) as total_students FROM students'',
          explanation = ''Counting total number of students'',
          confidence = 0.7\<rparr>"
    using create_fallback_query_order [of "''count the students''" "''boom''"] by blast
  from c have 3: "create_fallback_query ''Show all students'' ''boom'' =
        \<lparr>query = ''SELECT roll_no, first_name, last_name, age FROM students LIMIT 100'',
          explanation = ''Showing all students in the database'',
          confidence = 0.7\<rparr>"
    using create_fallback_query_order [of "''Show all students''" "''boom''"] by blast
  from d have 4: "query (create_fallback_query ''hello'' ''boom'') =
        ''SELECT '' @ [CHR 0x27] @ ''Error: Could not generate query'' @ [CHR 0x27] @ '' as error_message''
      \<and> confidence (create_fallback_query ''hello'' ''boom'') = 0.0
      \<and> explanation (create_fallback_query ''hello'' ''boom'') =
        ''Failed to generate query for: '' @ ''hello'' @ ''. Error: '' @ ''boom''"
    using create_fallback_query_order [of "''hello''" "''boom''"] by blast
  from 1 2 3 4 show ?thesis by simp
qed

text \<open>
  C4, as the claim states it, fails: a question that contains "student" and "count"
  and also "class" and "all" is answered by the first rule of the ladder.
\<close>

theorem fallback_count_students_counterexample:
  "\<not> (\<forall>question error.
      sublist ''student'' (py_lower question) \<and> sublist ''count'' (py_lower question) \<longrightarrow>
      query (create_fallback_query question error) = ''SELECT COUNT(*) as total_students FROM students''
      \<and> confidence (create_fallback_query question error) = 0.7)"
proof
  assume a: "\<forall>question error.
      sublist ''student'' (py_lower question) \<and> sublist ''count'' (py_lower question) \<longrightarrow>
      query (create_fallback_query question error) = ''SELECT COUNT(*) as total_students FROM students''
      \<and> confidence (create_fallback_query question error) = 0.7"
  have "sublist ''student'' (py_lower ''Count ALL students in each Class'')"
    by code_simp
  moreover have "sublist ''count'' (py_lower ''Count ALL students in each Class'')"
    by code_simp
  ultimately have "query (create_fallback_query ''Count ALL students in each Class'' [])
      = ''SELECT COUNT(*) as total_students FROM students''"
    using a by blast
  moreover have "query (create_fallback_query ''Count ALL students in each Class'' [])
      = ''SELECT class_id, class_name FROM classes LIMIT 100''"
    by code_simp
  ultimately show False by simp
qed

text \<open>
  C4, amended. For every question whose lower-cased text contains "student" and "count"
  and does not contain both "class" and "all", the fallback path returns exactly the
  query \<open>SELECT COUNT(*) as total_students FROM students\<close> with confidence 0.7.
\<close>

theorem fallback_count_students:
  assumes "sublist ''student'' (py_lower question)"
    and "sublist ''count'' (py_lower question)"
    and "\<not> (sublist ''class'' (py_lower question) \<and> sublist ''all'' (py_lower question))"
  shows "query (create_fallback_query question error) =
           ''SELECT COUNT(*) as total_students FROM students''
         \<and> confidence (create_fallback_query question error) = 0.7"
  using assms by (simp add: fallback_ladder)

theorem fallback_count_students_witness:
  "query (create_fallback_query ''Please COUNT every Student'' ''timeout'') =
     ''SELECT COUNT(*) as total_students FROM students''
   \<and> confidence (create_fallback_query ''Please COUNT every Student'' ''timeout'') = 0.7"
proof -
  have a: "sublist ''student'' (py_lower ''Please COUNT every Student'')"
    by code_simp
  have b: "sublist ''count'' (py_lower ''Please COUNT every Student'')"
    by code_simp
  have c: "\<not> (sublist ''class'' (py_lower ''Please COUNT every Student'') \<and>
               sublist ''all'' (py_lower ''Please COUNT every Student''))"
    by code_simp
  show ?thesis
    by (rule fallback_count_students [OF a b c])
qed

text \<open>The four queries of the ladder, each checked by the validator.\<close>

lemma validate_classes_query:
  "validate_sql ''SELECT class_id, class_name FROM classes LIMIT 100''"
  by code_simp

lemma validate_count_query:
  "validate_sql ''SELECT COUNT(*) as total_students FROM students''"
  by code_simp

lemma validate_students_query:
  "validate_sql ''SELECT roll_no, first_name, last_name, age FROM students LIMIT 100''"
  by code_simp

lemma validate_error_query:
  "validate_sql (''SELECT '' @ [CHR 0x27] @ ''Error: Could not generate query'' @ [CHR 0x27] @ '' as error_message'')"
  by code_simp

text \<open>
  C9. Whatever the question and the error text, the query that \<open>create_fallback_query\<close>
  returns is accepted by \<open>validate_sql\<close>; this includes the query of the last rule,
  which selects the error string.
\<close>

theorem fallback_query_is_valid:
  "validate_sql (query (create_fallback_query question error))"
  by (simp add: fallback_ladder validate_classes_query validate_count_query
        validate_students_query)
     (use validate_error_query in simp)

theorem fallback_query_is_valid_witness:
  "validate_sql (query (create_fallback_query ''what is the weather'' ''quota exceeded''))
   \<and> query (create_fallback_query ''what is the weather'' ''quota exceeded'') =
       ''SELECT '' @ [CHR 0x27] @ ''Error: Could not generate query'' @ [CHR 0x27] @ '' as error_message''"
proof -
  have "query (create_fallback_query ''what is the weather'' ''quota exceeded'') =
       ''SELECT '' @ [CHR 0x27] @ ''Error: Could not generate query'' @ [CHR 0x27] @ '' as error_message''"
    by code_simp
  then show ?thesis
    using fallback_query_is_valid [of "''what is the weather''" "''quota exceeded''"] by simp
qed

section \<open>The generator\<close>

lemma split_from_nonempty: "split_from sep acc s \<noteq> []"
  by (induction sep acc s rule: split_from.induct) auto

lemma split_from_two:
  "sep \<noteq> [] \<Longrightarrow> sublist sep s \<Longrightarrow> 2 \<le> length (split_from sep acc s)"
proof (induction sep acc s rule: split_from.induct)
  case (1 sep acc)
  then show ?case by simp
next
  case (2 sep acc c cs)
  show ?case
  proof (cases "take (length sep) (c # cs) = sep")
    case True
    have "split_from sep [] (drop (length sep - 1) cs) \<noteq> []"
      by (rule split_from_nonempty)
    then have "1 \<le> length (split_from sep [] (drop (length sep - 1) cs))"
      by (simp add: Suc_leI)
    with True show ?thesis by simp
  next
    case False
    then have "\<not> prefix sep (c # cs)"
      by (metis prefix_def append_eq_conv_conj)
    with 2(4) have "sublist sep cs"
      by (simp add: sublist_Cons_right)
    with 2(2) False 2(3) show ?thesis by simp
  qed
qed

lemma between_fences_some:
  assumes "opening \<noteq> []" and "py_in opening cleaned"
  shows "\<exists>inner. between_fences cleaned opening = Some inner"
proof -
  from assms(2) have "sublist opening cleaned" by (simp add: py_in_sublist)
  with assms(1) have "2 \<le> length (split_from opening [] cleaned)"
    by (rule split_from_two)
  then have a: "py_index (split_from opening [] cleaned) 1 = Some (split_from opening [] cleaned ! 1)"
    by (simp add: py_index_def)
  have "split_from fence [] (split_from opening [] cleaned ! 1) \<noteq> []"
    by (rule split_from_nonempty)
  then have b: "\<exists>x. py_index (split_from fence [] (split_from opening [] cleaned ! 1)) 0 = Some x"
    by (simp add: py_index_def)
  from assms(1) a b show ?thesis
    by (auto simp: between_fences_def py_split_def fence_def)
qed

lemma clean_response_some: "\<exists>c. clean_response r = Some c"
  using between_fences_some[of fence_json "py_strip r"] between_fences_some[of fence "py_strip r"]
  by (auto simp: clean_response_def Let_def fence_def fence_json_def)

lemma generate_sql_cases:
  "generate_sql lib (Inr sd) (Inr ti) chain_run question =
     (case chain_run sd ti question of
        Inl e \<Rightarrow> Inr (create_fallback_query question e)
      | Inr result \<Rightarrow>
          (case parse_response lib result of
             None \<Rightarrow> Inr (create_fallback_query question [])
           | Some q \<Rightarrow> Inr q))"
  by (simp add: generate_sql_def)

lemma build_query_fields:
  assumes "str_field lib (dict_get kvs ''query'' (JString ''SELECT * FROM classes LIMIT 10'')) = Some q"
   and "str_field lib (dict_get kvs ''explanation'' (JString ''Generated SQL query'')) = Some e"
  shows "build_query lib (JObject kvs) =
     (case py_float lib (dict_get kvs ''confidence'' (JFloat 0.8)) of
        None \<Rightarrow> None
      | Some x \<Rightarrow> Some \<lparr>query = q, explanation = e, confidence = x\<rparr>)"
  using assms by (simp add: build_query_def)

lemma hello_no_rule:
  "\<not> sublist ''class'' (py_lower ''hello'') \<and> \<not> sublist ''student'' (py_lower ''hello'')"
  by code_simp

lemma hello_fallback:
  "create_fallback_query ''hello'' error =
     \<lparr>query = ''SELECT '' @ [CHR 0x27] @ ''Error: Could not generate query'' @ [CHR 0x27] @ '' as error_message'',
      explanation = ''Failed to generate query for: hello. Error: '' @ error,
      confidence = 0\<rparr>"
  using hello_no_rule by (simp add: fallback_ladder)

lemma clean_plain: "clean_response ''  (model output) '' = Some ''(model output)''"
  by code_simp

lemma clean_fenced:
  "clean_response (''Here it is: '' @ fence_json @ ''(model output)'' @ fence @ '' Done.'')
     = Some ''(model output)''"
  by code_simp

text \<open>
  C3. \<open>generate_sql\<close> never fails outward. Once the schema description and the table
  information are in hand, it returns a query for every question, every library
  behaviour and every behaviour of the model call; and each internal failure gives the
  query of the fallback path: an exception of the model call (with its text as the
  error), a model output that \<open>json.loads\<close> rejects, a parsed value that is not an
  object, and a field whose validation or coercion to \<open>float\<close> raises.
\<close>

theorem generate_sql_never_fails:
  "(\<exists>q. generate_sql lib (Inr sd) (Inr ti) chain_run question = Inr q)
   \<and> (chain_run sd ti question = Inl e \<longrightarrow>
        generate_sql lib (Inr sd) (Inr ti) chain_run question
          = Inr (create_fallback_query question e))
   \<and> (chain_run sd ti question = Inr r \<and> clean_response r = Some c \<and> json_loads lib c = None \<longrightarrow>
        generate_sql lib (Inr sd) (Inr ti) chain_run question
          = Inr (create_fallback_query question []))
   \<and> (chain_run sd ti question = Inr r \<and> clean_response r = Some c \<and> json_loads lib c = Some v \<and>
        (\<forall>kvs. v \<noteq> JObject kvs) \<longrightarrow>
        generate_sql lib (Inr sd) (Inr ti) chain_run question
          = Inr (create_fallback_query question []))
   \<and> (chain_run sd ti question = Inr r \<and> clean_response r = Some c \<and>
        json_loads lib c = Some (JObject kvs) \<and>
        (str_field lib (dict_get kvs ''query'' (JString ''SELECT * FROM classes LIMIT 10'')) = None \<or>
         str_field lib (dict_get kvs ''explanation'' (JString ''Generated SQL query'')) = None \<or>
         py_float lib (dict_get kvs ''confidence'' (JFloat 0.8)) = None) \<longrightarrow>
        generate_sql lib (Inr sd) (Inr ti) chain_run question
          = Inr (create_fallback_query question []))"
proof -
  have 1: "\<exists>q. generate_sql lib (Inr sd) (Inr ti) chain_run question = Inr q"
    by (simp add: generate_sql_cases split: sum.splits option.splits)
  have 4: "(\<forall>kvs. v \<noteq> JObject kvs) \<Longrightarrow> build_query lib v = None"
    by (cases v) (simp_all add: build_query_def)
  have 5: "str_field lib (dict_get kvs ''query'' (JString ''SELECT * FROM classes LIMIT 10'')) = None \<or>
         str_field lib (dict_get kvs ''explanation'' (JString ''Generated SQL query'')) = None \<or>
         py_float lib (dict_get kvs ''confidence'' (JFloat 0.8)) = None
         \<Longrightarrow> build_query lib (JObject kvs) = None"
    by (auto simp: build_query_def split: option.splits)
  from 1 4 5 show ?thesis
    by (auto simp: generate_sql_cases parse_response_def)
qed

theorem generate_sql_never_fails_witness:
  "generate_sql (example_lib None) (Inr ''schema'') (Inr ''tables'')
       (\<lambda>sd ti q. Inl ''quota exceeded'') ''hello''
     = Inr \<lparr>query = ''SELECT '' @ [CHR 0x27] @ ''Error: Could not generate query'' @ [CHR 0x27] @ '' as error_message'',
            explanation = ''Failed to generate query for: hello. Error: quota exceeded'',
            confidence = 0\<rparr>
   \<and> generate_sql (example_lib None) (Inr ''schema'') (Inr ''tables'')
       (example_chain ''  (model output) '') ''hello''
     = Inr \<lparr>query = ''SELECT '' @ [CHR 0x27] @ ''Error: Could not generate query'' @ [CHR 0x27] @ '' as error_message'',
            explanation = ''Failed to generate query for: hello. Error: '',
            confidence = 0\<rparr>
   \<and> generate_sql (example_lib (Some (JArray []))) (Inr ''schema'') (Inr ''tables'')
       (example_chain ''  (model output) '') ''hello''
     = Inr \<lparr>query = ''SELECT '' @ [CHR 0x27] @ ''Error: Could not generate query'' @ [CHR 0x27] @ '' as error_message'',
            explanation = ''Failed to generate query for: hello. Error: '',
            confidence = 0\<rparr>
   \<and> generate_sql (example_lib (Some (JObject [(''confidence'', JString ''high'')])))
       (Inr ''schema'') (Inr ''tables'') (example_chain ''  (model output) '') ''hello''
     = Inr \<lparr>query = ''SELECT '' @ [CHR 0x27] @ ''Error: Could not generate query'' @ [CHR 0x27] @ '' as error_message'',
            explanation = ''Failed to generate query for: hello. Error: '',
            confidence = 0\<rparr>"
proof -
  have 1: "generate_sql (example_lib None) (Inr ''schema'') (Inr ''tables'')
       (\<lambda>sd ti q. Inl ''quota exceeded'') ''hello''
     = Inr (create_fallback_query ''hello'' ''quota exceeded'')"
    using generate_sql_never_fails
      [where lib = "example_lib None" and sd = "''schema''" and ti = "''tables''"
         and chain_run = "\<lambda>sd ti q. Inl ''quota exceeded''" and question = "''hello''"
         and e = "''quota exceeded''"]
    by simp
  have 2: "generate_sql (example_lib None) (Inr ''schema'') (Inr ''tables'')
       (example_chain ''  (model output) '') ''hello''
     = Inr (create_fallback_query ''hello'' [])"
    using generate_sql_never_fails
      [where lib = "example_lib None" and sd = "''schema''" and ti = "''tables''"
         and chain_run = "example_chain ''  (model output) ''" and question = "''hello''"
         and r = "''  (model output) ''" and c = "''(model output)''"]
      clean_plain
    by (simp add: example_chain_def example_lib_def)
  have 3: "generate_sql (example_lib (Some (JArray []))) (Inr ''schema'') (Inr ''tables'')
       (example_chain ''  (model output) '') ''hello''
     = Inr (create_fallback_query ''hello'' [])"
    using generate_sql_never_fails
      [where lib = "example_lib (Some (JArray []))" and sd = "''schema''" and ti = "''tables''"
         and chain_run = "example_chain ''  (model output) ''" and question = "''hello''"
         and r = "''  (model output) ''" and c = "''(model output)''" and v = "JArray []"]
      clean_plain
    by (simp add: example_chain_def example_lib_def)
  have 4: "generate_sql (example_lib (Some (JObject [(''confidence'', JString ''high'')])))
       (Inr ''schema'') (Inr ''tables'') (example_chain ''  (model output) '') ''hello''
     = Inr (create_fallback_query ''hello'' [])"
    using generate_sql_never_fails
      [where lib = "example_lib (Some (JObject [(''confidence'', JString ''high'')]))"
         and sd = "''schema''" and ti = "''tables''"
         and chain_run = "example_chain ''  (model output) ''" and question = "''hello''"
         and r = "''  (model output) ''" and c = "''(model output)''"
         and kvs = "[(''confidence'', JString ''high'')]"]
      clean_plain
    by (simp add: example_chain_def example_lib_def dict_get_def py_float_def)
  from 1 2 3 4 show ?thesis
    by (simp add: hello_fallback)
qed

text \<open>
  C8, as the claim states it, fails: a model output that parses as a JSON object whose
  confidence field is malformed (here \<open>null\<close>) does not get the confidence 0.8 and is not
  built from the parsed fields; \<open>float\<close> raises and the fallback query is returned.
\<close>

theorem generate_sql_malformed_confidence_counterexample:
  "json_loads (example_lib (Some (JObject [(''query'', JString ''SELECT 1''),
                                           (''explanation'', JString ''one''),
                                           (''confidence'', JNull)]))) ''(model output)''
     = Some (JObject [(''query'', JString ''SELECT 1''),
                      (''explanation'', JString ''one''),
                      (''confidence'', JNull)])
   \<and> generate_sql (example_lib (Some (JObject [(''query'', JString ''SELECT 1''),
                                                (''explanation'', JString ''one''),
                                                (''confidence'', JNull)])))
       (Inr ''schema'') (Inr ''tables'') (example_chain ''  (model output) '') ''hello''
     = Inr \<lparr>query = ''SELECT '' @ [CHR 0x27] @ ''Error: Could not generate query'' @ [CHR 0x27] @ '' as error_message'',
            explanation = ''Failed to generate query for: hello. Error: '',
            confidence = 0\<rparr>
   \<and> generate_sql (example_lib (Some (JObject [(''query'', JString ''SELECT 1''),
                                                (''explanation'', JString ''one''),
                                                (''confidence'', JNull)])))
       (Inr ''schema'') (Inr ''tables'') (example_chain ''  (model output) '') ''hello''
     \<noteq> Inr \<lparr>query = ''SELECT 1'', explanation = ''one'', confidence = 0.8\<rparr>"
  using clean_plain
  by (simp add: generate_sql_def example_chain_def example_lib_def parse_response_def
        build_query_def str_field_def dict_get_def py_float_def hello_fallback)

text \<open>
  C8, amended. When the model output parses as a JSON object whose query and
  explanation are accepted as strings, \<open>generate_sql\<close> builds the query from the parsed
  fields: the confidence is 0.8 if the confidence field is absent, and the \<open>float\<close> of
  the field if that coercion succeeds; if the field is present and cannot be coerced,
  the result is the fallback query.
\<close>

theorem generate_sql_parsed:
  assumes "chain_run sd ti question = Inr r"
    and "clean_response r = Some c"
    and "json_loads lib c = Some (JObject kvs)"
    and "str_field lib (dict_get kvs ''query'' (JString ''SELECT * FROM classes LIMIT 10'')) = Some q"
    and "str_field lib (dict_get kvs ''explanation'' (JString ''Generated SQL query'')) = Some e"
  shows "(map_of kvs ''confidence'' = None \<longrightarrow>
            generate_sql lib (Inr sd) (Inr ti) chain_run question
              = Inr \<lparr>query = q, explanation = e, confidence = 0.8\<rparr>)
         \<and> (map_of kvs ''confidence'' = Some v \<and> py_float lib v = Some x \<longrightarrow>
            generate_sql lib (Inr sd) (Inr ti) chain_run question
              = Inr \<lparr>query = q, explanation = e, confidence = x\<rparr>)
         \<and> (map_of kvs ''confidence'' = Some v \<and> py_float lib v = None \<longrightarrow>
            generate_sql lib (Inr sd) (Inr ti) chain_run question
              = Inr (create_fallback_query question []))"
  using assms
  by (auto simp: generate_sql_cases parse_response_def build_query_fields dict_get_def py_float_def)

theorem generate_sql_parsed_witness:
  "generate_sql (example_lib (Some (JObject [(''query'', JString ''SELECT 1''),
                                             (''explanation'', JString ''one'')])))
       (Inr ''schema'') (Inr ''tables'')
       (example_chain (''Here it is: '' @ fence_json @ ''(model output)'' @ fence @ '' Done.''))
       ''hello''
     = Inr \<lparr>query = ''SELECT 1'', explanation = ''one'', confidence = 0.8\<rparr>
   \<and> generate_sql (example_lib (Some (JObject [(''query'', JString ''SELECT 1''),
                                             (''explanation'', JString ''one''),
                                             (''confidence'', JInt 1)])))
       (Inr ''schema'') (Inr ''tables'')
       (example_chain (''Here it is: '' @ fence_json @ ''(model output)'' @ fence @ '' Done.''))
       ''hello''
     = Inr \<lparr>query = ''SELECT 1'', explanation = ''one'', confidence = 1\<rparr>
   \<and> generate_sql (example_lib (Some (JObject [(''query'', JString ''SELECT 1''),
                                             (''explanation'', JString ''one''),
                                             (''confidence'', JNull)])))
       (Inr ''schema'') (Inr ''tables'')
       (example_chain (''Here it is: '' @ fence_json @ ''(model output)'' @ fence @ '' Done.''))
       ''hello''
     = Inr \<lparr>query = ''SELECT '' @ [CHR 0x27] @ ''Error: Could not generate query'' @ [CHR 0x27] @ '' as error_message'',
            explanation = ''Failed to generate query for: hello. Error: '',
            confidence = 0\<rparr>"
proof -
  let ?text = "''Here it is: '' @ fence_json @ ''(model output)'' @ fence @ '' Done.''"
  let ?a = "[(''query'', JString ''SELECT 1''), (''explanation'', JString ''one'')]"
  let ?b = "[(''query'', JString ''SELECT 1''), (''explanation'', JString ''one''),
             (''confidence'', JInt 1)]"
  let ?c = "[(''query'', JString ''SELECT 1''), (''explanation'', JString ''one''),
             (''confidence'', JNull)]"
  have 1: "generate_sql (example_lib (Some (JObject ?a))) (Inr ''schema'') (Inr ''tables'')
             (example_chain ?text) ''hello''
           = Inr \<lparr>query = ''SELECT 1'', explanation = ''one'', confidence = 0.8\<rparr>"
    using generate_sql_parsed
      [where lib = "example_lib (Some (JObject ?a))" and sd = "''schema''" and ti = "''tables''"
         and chain_run = "example_chain ?text" and question = "''hello''" and r = ?text
         and c = "''(model output)''" and kvs = ?a and q = "''SELECT 1''" and e = "''one''"]
      clean_fenced
    by (simp add: example_chain_def example_lib_def str_field_def dict_get_def)
  have 2: "generate_sql (example_lib (Some (JObject ?b))) (Inr ''schema'') (Inr ''tables'')
             (example_chain ?text) ''hello''
           = Inr \<lparr>query = ''SELECT 1'', explanation = ''one'', confidence = 1\<rparr>"
    using generate_sql_parsed
      [where lib = "example_lib (Some (JObject ?b))" and sd = "''schema''" and ti = "''tables''"
         and chain_run = "example_chain ?text" and question = "''hello''" and r = ?text
         and c = "''(model output)''" and kvs = ?b and q = "''SELECT 1''" and e = "''one''"
         and v = "JInt 1" and x = 1]
      clean_fenced
    by (simp add: example_chain_def example_lib_def str_field_def dict_get_def py_float_def)
  have 3: "generate_sql (example_lib (Some (JObject ?c))) (Inr ''schema'') (Inr ''tables'')
             (example_chain ?text) ''hello''
           = Inr (create_fallback_query ''hello'' [])"
    using generate_sql_parsed
      [where lib = "example_lib (Some (JObject ?c))" and sd = "''schema''" and ti = "''tables''"
         and chain_run = "example_chain ?text" and question = "''hello''" and r = ?text
         and c = "''(model output)''" and kvs = ?c and q = "''SELECT 1''" and e = "''one''"
         and v = "JNull"]
      clean_fenced
    by (simp add: example_chain_def example_lib_def str_field_def dict_get_def py_float_def)
  from 1 2 3 show ?thesis
    by (simp add: hello_fallback)
qed

section \<open>The conversation memory\<close>

lemma most_recent_drop: "most_recent n xs = drop (length xs - n) xs"
  by (simp add: most_recent_def rev_take)

lemma py_slice_last: "0 < i \<Longrightarrow> py_slice_from xs (- i) = most_recent (nat i) xs"
  unfolding py_slice_from_def most_recent_drop Let_def
  by (rule arg_cong2[of _ _ _ _ drop]) auto

lemma py_slice_zero: "py_slice_from xs 0 = xs"
  by (simp add: py_slice_from_def)

lemma most_recent_twice: "k \<le> n \<Longrightarrow> most_recent k (most_recent n xs) = most_recent k xs"
  by (simp add: most_recent_drop) (rule arg_cong2[of _ _ _ _ drop], auto)

lemma most_recent_Nil_iff: "0 < n \<Longrightarrow> most_recent n xs = [] \<longleftrightarrow> xs = []"
  by (cases xs) (auto simp: most_recent_drop)

lemma length_most_recent: "length (most_recent n xs) = min n (length xs)"
  by (simp add: most_recent_def)

lemma foldl_concat: "foldl (\<lambda>acc x. acc @ f x) h xs = h @ concat (map f xs)"
  by (induction xs arbitrary: h) simp_all

lemma history_positive:
  "0 < limit \<Longrightarrow> get_conversation_history m session_id limit =
     (case conversations m session_id of None \<Rightarrow> [] | Some entries \<Rightarrow> most_recent (nat limit) entries)"
  by (simp add: get_conversation_history_def py_slice_last split: option.splits)

lemma history_zero:
  "get_conversation_history m session_id 0 =
     (case conversations m session_id of None \<Rightarrow> [] | Some entries \<Rightarrow> entries)"
  by (simp add: get_conversation_history_def py_slice_zero split: option.splits)

lemma context_explicit:
  "get_context_for_question m session_id current_question =
     (case conversations m session_id of
        None \<Rightarrow> []
      | Some entries \<Rightarrow>
          if entries = [] then []
          else (''Previous conversation context:'' @ [NL]) @
               concat (map (\<lambda>exchange. ''Q: '' @ x_question exchange @ [NL]
                                         @ ''A: '' @ x_explanation exchange @ [NL, NL])
                           (most_recent 3 entries)))"
proof -
  have h: "get_conversation_history m session_id 5 =
     (case conversations m session_id of None \<Rightarrow> [] | Some entries \<Rightarrow> most_recent 5 entries)"
    by (simp add: history_positive split: option.splits)
  have s3: "\<And>xs :: ('a, 'b) exchange list. py_slice_from xs (- 3) = most_recent 3 xs"
    by (simp add: py_slice_last)
  have fl: "\<And>h xs. foldl (\<lambda>context exchange. context @ ''Q: '' @ x_question exchange @ [NL]
                            @ ''A: '' @ x_explanation exchange @ [NL, NL]) h xs
      = h @ concat (map (\<lambda>exchange. ''Q: '' @ x_question exchange @ [NL]
                                         @ ''A: '' @ x_explanation exchange @ [NL, NL]) xs)"
    using foldl_concat[where f = "\<lambda>exchange. ''Q: '' @ x_question exchange @ [NL]
                                         @ ''A: '' @ x_explanation exchange @ [NL, NL]"]
    by simp
  show ?thesis
    unfolding get_context_for_question_def h Let_def s3 fl
    by (simp add: most_recent_Nil_iff most_recent_twice split: option.splits)
qed

lemma example_ops_log:
  "conversations (run_ops str_obj example_ops) ''s1'' =
     Some [\<lparr>x_timestamp = ''t1'', x_question = ''q1'', x_sql_query = ''SELECT 1'', x_result = PyStr ''r1'', x_explanation = ''e1''\<rparr>,
           \<lparr>x_timestamp = ''t2'', x_question = ''q2'', x_sql_query = ''SELECT 2'', x_result = PyStr ''r2'', x_explanation = ''e2''\<rparr>,
           \<lparr>x_timestamp = ''t3'', x_question = ''q3'', x_sql_query = ''SELECT 3'', x_result = PyStr ''r3'', x_explanation = ''e3''\<rparr>,
           \<lparr>x_timestamp = ''t4'', x_question = ''q4'', x_sql_query = ''SELECT 4'', x_result = PyStr ''r4'', x_explanation = ''e4''\<rparr>]"
  by (simp add: run_ops_def example_ops_def init_memory_def create_session_def add_exchange_def
        isinstance_str_def)

text \<open>
  C6. \<open>get_context_for_question\<close> returns the empty string when the session is unknown or
  has no exchanges. Otherwise it writes, after a heading line, the at most three most
  recent exchanges, oldest first, each as a \<open>Q:\<close> line with the stored question and an
  \<open>A:\<close> line with the stored explanation; neither the SQL nor the result appears. The
  current question has no influence.
\<close>

theorem context_text:
  "(conversations m session_id = None \<or> conversations m session_id = Some [] \<longrightarrow>
      get_context_for_question m session_id current_question = [])
   \<and> (conversations m session_id = Some entries \<and> entries \<noteq> [] \<longrightarrow>
      get_context_for_question m session_id current_question =
        ''Previous conversation context:'' @ [NL] @
        concat (map (\<lambda>exchange. ''Q: '' @ x_question exchange @ [NL]
                                  @ ''A: '' @ x_explanation exchange @ [NL, NL])
                    (most_recent 3 entries)))
   \<and> length (most_recent 3 entries) \<le> 3
   \<and> get_context_for_question m session_id current_question =
       get_context_for_question m session_id other_question"
  by (auto simp: context_explicit length_most_recent)

theorem context_text_witness:
  "get_context_for_question (init_memory :: (nat, unit) ConversationMemory) ''s1'' ''next?'' = []
   \<and> get_context_for_question (run_ops (\<lambda>v. ''obj'') example_ops :: (nat, unit) ConversationMemory)
         ''s1'' ''next?'' =
       ''Previous conversation context:'' @ [NL] @
       ''Q: q2'' @ [NL] @ ''A: e2'' @ [NL, NL] @
       ''Q: q3'' @ [NL] @ ''A: e3'' @ [NL, NL] @
       ''Q: q4'' @ [NL] @ ''A: e4'' @ [NL, NL]"
proof -
  have 1: "get_context_for_question (init_memory :: (nat, unit) ConversationMemory) ''s1'' ''next?'' = []"
    using context_text [where m = "init_memory :: (nat, unit) ConversationMemory"
        and session_id = "''s1''" and current_question = "''next?''"]
    by (simp add: init_memory_def)
  have 2: "get_context_for_question (run_ops (\<lambda>v. ''obj'') example_ops :: (nat, unit) ConversationMemory)
         ''s1'' ''next?'' =
       ''Previous conversation context:'' @ [NL] @
        concat (map (\<lambda>exchange. ''Q: '' @ x_question exchange @ [NL]
                                  @ ''A: '' @ x_explanation exchange @ [NL, NL])
                    (most_recent 3 (example_log :: (nat, unit) exchange list)))"
  proof -
    have L: "conversations (run_ops (\<lambda>v. ''obj'') example_ops :: (nat, unit) ConversationMemory) ''s1''
               = Some example_log \<and> (example_log :: (nat, unit) exchange list) \<noteq> []"
      by (simp add: example_ops_log example_log_def)
    from L show ?thesis
      using context_text [where m = "run_ops (\<lambda>v. ''obj'') example_ops :: (nat, unit) ConversationMemory"
        and session_id = "''s1''" and current_question = "''next?''" and entries = example_log]
      by blast
  qed
  from 1 2 show ?thesis
    by (simp add: most_recent_def example_log_def)
qed

text \<open>
  C7. \<open>get_conversation_history\<close> is to return the most recent \<open>limit\<close> exchanges, so
  none for the limit 0. The slice \<open>[-limit:]\<close> with \<open>limit = 0\<close> is \<open>[0:]\<close>, the whole
  log: a session with one exchange, asked with limit 0, returns that exchange.
\<close>

theorem history_limit_zero_returns_all:
  "get_conversation_history
     (add_exchange (\<lambda>v. ''obj'') ''t1'' init_memory ''s1'' ''q1'' ''SELECT 1'' (PyStr ''r1'') ''e1'')
     ''s1'' 0
   = [\<lparr>x_timestamp = ''t1'', x_question = ''q1'', x_sql_query = ''SELECT 1'', x_result = PyStr ''r1'', x_explanation = ''e1''\<rparr>]"
  by (simp add: history_zero add_exchange_def init_memory_def isinstance_str_def)

lemma add_exchange_log:
  "conversations (add_exchange str_obj now m session_id question sql_query result explanation') sid =
     (if sid = session_id
      then Some ((case conversations m session_id of None \<Rightarrow> [] | Some entries \<Rightarrow> entries) @
             [\<lparr>x_timestamp = now, x_question = question, x_sql_query = sql_query,
               x_result = PyStr (py_str str_obj result), x_explanation = explanation'\<rparr>])
      else conversations m sid)"
  by (cases result)
     (auto simp: add_exchange_def Let_def isinstance_str_def py_str_def split: option.splits)

lemma create_session_log:
  "conversations (snd (create_session session_id m)) sid =
     (if sid = session_id then Some [] else conversations m sid)"
  by (simp add: create_session_def)

lemma strings_only_init: "strings_only init_memory"
  by (simp add: strings_only_def init_memory_def)

lemma strings_only_step:
  assumes "strings_only m"
  shows "strings_only (apply_op str_obj m op)"
proof (cases op)
  case (CreateSession session_id)
  with assms show ?thesis
    by (auto simp: strings_only_def create_session_log split: if_splits)
next
  case (AddExchange now session_id question sql_query result explanation')
  have old: "\<forall>e \<in> set (case conversations m session_id of None \<Rightarrow> [] | Some entries \<Rightarrow> entries).
               isinstance_str (x_result e)"
  proof (cases "conversations m session_id")
    case None
    then show ?thesis by simp
  next
    case (Some entries)
    with assms show ?thesis
      unfolding strings_only_def by auto
  qed
  show ?thesis
    unfolding strings_only_def
  proof (intro allI impI)
    fix sid entries
    assume a: "conversations (apply_op str_obj m op) sid = Some entries"
    show "\<forall>e \<in> set entries. isinstance_str (x_result e)"
    proof (cases "sid = session_id")
      case True
      with a AddExchange have en: "entries =
          (case conversations m session_id of None \<Rightarrow> [] | Some entries \<Rightarrow> entries) @
          [\<lparr>x_timestamp = now, x_question = question, x_sql_query = sql_query,
            x_result = PyStr (py_str str_obj result), x_explanation = explanation'\<rparr>]"
        by (simp add: add_exchange_log)
      have "isinstance_str (PyStr (py_str str_obj result))"
        by (simp add: isinstance_str_def)
      with old show ?thesis
        unfolding en by simp
    next
      case False
      with a AddExchange have "conversations m sid = Some entries"
        by (simp add: add_exchange_log)
      with assms show ?thesis
        unfolding strings_only_def by blast
    qed
  qed
qed

lemma strings_only_foldl: "strings_only m \<Longrightarrow> strings_only (foldl (apply_op str_obj) m ops)"
  by (induction ops arbitrary: m) (simp_all add: strings_only_step)

lemma strings_only_run: "strings_only (run_ops str_obj ops)"
  unfolding run_ops_def by (rule strings_only_foldl) (rule strings_only_init)

text \<open>
  C10. \<open>add_exchange\<close> appends to the log of the session an exchange whose result is a
  string: the result itself when it is a string, its \<open>str\<close> rendering otherwise. So after
  any sequence of operations, every exchange of every log holds a string as result.
\<close>

theorem stored_results_are_strings:
  "conversations (add_exchange str_obj now m session_id question sql_query result explanation') session_id
     = Some ((case conversations m session_id of None \<Rightarrow> [] | Some entries \<Rightarrow> entries) @
             [\<lparr>x_timestamp = now, x_question = question, x_sql_query = sql_query,
               x_result = PyStr (py_str str_obj result), x_explanation = explanation'\<rparr>])
   \<and> (isinstance_str result \<longrightarrow> PyStr (py_str str_obj result) = result)
   \<and> (\<not> isinstance_str result \<longrightarrow> py_str str_obj result = str_obj result)
   \<and> (conversations (run_ops str_obj ops) sid = Some entries \<and> e \<in> set entries \<longrightarrow>
        (\<exists>s. x_result e = PyStr s))"
proof -
  have 1: "isinstance_str result \<longrightarrow> PyStr (py_str str_obj result) = result"
    by (cases result) (simp_all add: isinstance_str_def py_str_def)
  have 2: "\<not> isinstance_str result \<longrightarrow> py_str str_obj result = str_obj result"
    by (cases result) (simp_all add: isinstance_str_def py_str_def)
  have 3: "conversations (run_ops str_obj ops) sid = Some entries \<and> e \<in> set entries \<longrightarrow>
        (\<exists>s. x_result e = PyStr s)"
  proof
    assume a: "conversations (run_ops str_obj ops) sid = Some entries \<and> e \<in> set entries"
    have "strings_only (run_ops str_obj ops)" by (rule strings_only_run)
    with a have "isinstance_str (x_result e)"
      unfolding strings_only_def by blast
    then show "\<exists>s. x_result e = PyStr s"
      by (cases "x_result e") (simp_all add: isinstance_str_def)
  qed
  from 1 2 3 show ?thesis
    by (simp add: add_exchange_log)
qed

theorem stored_results_are_strings_witness:
  "conversations
     (add_exchange (\<lambda>v. ''rendered'') ''t1'' init_memory ''s1'' ''q1'' ''SELECT 1''
        (PyOther 42 :: (nat, nat) pyval) ''e1'') ''s1''
     = Some [\<lparr>x_timestamp = ''t1'', x_question = ''q1'', x_sql_query = ''SELECT 1'',
              x_result = PyStr ''rendered'', x_explanation = ''e1''\<rparr>]
   \<and> conversations (run_ops (\<lambda>v. ''rendered'') example_store) ''s1''
     = Some [\<lparr>x_timestamp = ''t1'', x_question = ''q1'', x_sql_query = ''SELECT 1'',
              x_result = PyStr ''rendered'', x_explanation = ''e1''\<rparr>]
   \<and> (\<exists>s. x_result \<lparr>x_timestamp = ''t1'', x_question = ''q1'', x_sql_query = ''SELECT 1'',
              x_result = PyStr ''rendered'' :: (nat, nat) pyval, x_explanation = ''e1''\<rparr> = PyStr s)"
proof -
  let ?e = "\<lparr>x_timestamp = ''t1'', x_question = ''q1'', x_sql_query = ''SELECT 1'',
              x_result = PyStr ''rendered'' :: (nat, nat) pyval, x_explanation = ''e1''\<rparr>"
  have 1: "conversations
     (add_exchange (\<lambda>v. ''rendered'') ''t1'' init_memory ''s1'' ''q1'' ''SELECT 1''
        (PyOther 42 :: (nat, nat) pyval) ''e1'') ''s1'' = Some [?e]"
    using stored_results_are_strings
      [where str_obj = "\<lambda>v. ''rendered''" and now = "''t1''"
         and m = "init_memory :: (nat, nat) ConversationMemory" and session_id = "''s1''"
         and question = "''q1''" and sql_query = "''SELECT 1''"
         and result = "PyOther 42" and explanation' = "''e1''"]
    by (simp add: init_memory_def py_str_def)
  have 2: "conversations (run_ops (\<lambda>v. ''rendered'') example_store) ''s1'' = Some [?e]"
    by (simp add: run_ops_def example_store_def init_memory_def add_exchange_def
          isinstance_str_def py_str_def)
  have "conversations (run_ops (\<lambda>v. ''rendered'') example_store) ''s1'' = Some [?e] \<and> ?e \<in> set [?e]"
    using 2 by simp
  then have 3: "\<exists>s. x_result ?e = PyStr s"
    using stored_results_are_strings
      [where str_obj = "\<lambda>v. ''rendered''" and ops = example_store and sid = "''s1''"
         and entries = "[?e]" and e = ?e]
    by blast
  from 1 2 3 show ?thesis by blast
qed

section \<open>The formatting of results\<close>

lemma str_nat_small: "n < 10 \<Longrightarrow> str_nat n = [digit_char n]"
  by (subst str_nat.simps) simp

lemma digits_value_str_nat: "digits_value (str_nat n) = n"
proof (induction n rule: str_nat.induct)
  case (1 n)
  show ?case
  proof (cases "n < 10")
    case True
    then show ?thesis
      by (subst str_nat.simps) (simp add: digits_value_def digit_char_def)
  next
    case False
    with 1 have ih: "digits_value (str_nat (n div 10)) = n div 10" by simp
    have d: "of_char (digit_char (n mod 10)) - 48 = n mod 10"
      by (simp add: digit_char_def)
    from False have "str_nat n = str_nat (n div 10) @ [digit_char (n mod 10)]"
      by (subst str_nat.simps) simp
    then have "digits_value (str_nat n) = 10 * digits_value (str_nat (n div 10)) + n mod 10"
      using d by (simp add: digits_value_def)
    with ih show ?thesis by simp
  qed
qed

lemma str_nat_12: "str_nat 12 = ''12''"
  by code_simp

text \<open>
  C5. The formatting step of \<open>generate_response\<close>, on a tabular result: a result with no
  rows gives exactly \<open>No data found.\<close>; a result with more than 10 rows gives the count
  of all its rows, written in decimal, followed by the rendering of its first 10 rows;
  a result with at least one and at most 10 rows gives the rendering of all its rows.
  A tabular result has at least one column.
\<close>

theorem format_results_policy:
  "(rows df = [] \<longrightarrow>
      format_results to_string str_obj (PyDataFrame df) = ''No data found.'')
   \<and> (columns df \<noteq> [] \<and> 10 < length (rows df) \<longrightarrow>
      format_results to_string str_obj (PyDataFrame df) =
        ''Found '' @ str_nat (length (rows df)) @ '' records. Here are the first 10:'' @ [NL]
          @ to_string (DataFrame (columns df) (take 10 (rows df))))
   \<and> (columns df \<noteq> [] \<and> rows df \<noteq> [] \<and> length (rows df) \<le> 10 \<longrightarrow>
      format_results to_string str_obj (PyDataFrame df) = to_string df)
   \<and> digits_value (str_nat (length (rows df))) = length (rows df)"
  by (auto simp: format_results_def df_empty_def df_len_def df_head_def digits_value_str_nat)

theorem format_results_policy_witness:
  "format_results example_to_string (\<lambda>v. ''obj'') (PyDataFrame (example_frame 0) :: (nat, unit) pyval)
     = ''No data found.''
   \<and> format_results example_to_string (\<lambda>v. ''obj'') (PyDataFrame (example_frame 12) :: (nat, unit) pyval)
     = ''Found 12 records. Here are the first 10:'' @ [NL] @ ''0;1;2;3;4;5;6;7;8;9;''
   \<and> format_results example_to_string (\<lambda>v. ''obj'') (PyDataFrame (example_frame 3) :: (nat, unit) pyval)
     = ''0;1;2;''"
proof -
  have r0: "rows (example_frame 0) = []"
    by (simp add: example_frame_def)
  have r12: "columns (example_frame 12) \<noteq> [] \<and> 10 < length (rows (example_frame 12))"
    by (simp add: example_frame_def)
  have r3: "columns (example_frame 3) \<noteq> [] \<and> rows (example_frame 3) \<noteq> []
            \<and> length (rows (example_frame 3)) \<le> 10"
    by (simp add: example_frame_def)
  have l12: "length (rows (example_frame 12)) = 12"
    by (simp add: example_frame_def)
  have t12: "example_to_string (DataFrame (columns (example_frame 12)) (take 10 (rows (example_frame 12))))
             = ''0;1;2;3;4;5;6;7;8;9;''"
    by code_simp
  have t3: "example_to_string (example_frame 3) = ''0;1;2;''"
    by code_simp
  have 1: "format_results example_to_string (\<lambda>v. ''obj'') (PyDataFrame (example_frame 0) :: (nat, unit) pyval)
     = ''No data found.''"
    using format_results_policy [of "example_frame 0" example_to_string "\<lambda>v. ''obj''"] r0
    by blast
  have 2: "format_results example_to_string (\<lambda>v. ''obj'') (PyDataFrame (example_frame 12) :: (nat, unit) pyval)
     = ''Found '' @ str_nat (length (rows (example_frame 12))) @ '' records. Here are the first 10:'' @ [NL]
          @ example_to_string (DataFrame (columns (example_frame 12)) (take 10 (rows (example_frame 12))))"
    using format_results_policy [of "example_frame 12" example_to_string "\<lambda>v. ''obj''"] r12
    by blast
  have 3: "format_results example_to_string (\<lambda>v. ''obj'') (PyDataFrame (example_frame 3) :: (nat, unit) pyval)
     = example_to_string (example_frame 3)"
    using format_results_policy [of "example_frame 3" example_to_string "\<lambda>v. ''obj''"] r3
    by blast
  from 1 2 3 show ?thesis
    unfolding l12 t12 t3 str_nat_12 by simp
qed

end
